theory Spec2Isabelle
  imports Main "HOL-Library.Sublist"
begin

section \<open>Python strings\<close>

text \<open>
  A Python \<open>str\<close> is a sequence of Unicode code points: \<open>len\<close> counts code points and
  \<open>ch in text\<close> compares code points. The emoji literal of \<open>needs_manual_reply\<close> and the
  typographic quote and dash of the welcome template lie outside Latin-1, so a string is a
  list of code points here. Source literals that are plain ASCII are written with
  \<open>ascii\<close>.
\<close>

type_synonym codepoint = nat
type_synonym str = "codepoint list"

definition ascii :: "string \<Rightarrow> str" where
  "ascii s = map of_char s"

text \<open>
  \<open>str.lower()\<close> maps every code point to its Unicode lowercase mapping and concatenates the
  results. The table is transcribed for Basic Latin and the Latin-1 Supplement and for the
  code points outside them whose mapping this program can observe: U+0130 (capital I with
  dot above), the one code point whose lowercase mapping has two code points (U+0069
  U+0307), and the Kelvin and Angstrom signs U+212A and U+212B, which map to \<open>k\<close> and to
  U+00E5. No other code point beyond ASCII lowercases to an ASCII letter. The remaining
  cased letters map one non-ASCII code point to one non-ASCII code point and are left
  unchanged here; every test of this program on a lowercased string compares it with ASCII
  words or takes its length, and neither can tell the difference.
\<close>

definition lower_cp :: "codepoint \<Rightarrow> str" where
  "lower_cp c =
     (if 65 \<le> c \<and> c \<le> 90 then [c + 32]
      else if 192 \<le> c \<and> c \<le> 222 \<and> c \<noteq> 215 then [c + 32]
      else if c = 304 then [105, 775]
      else if c = 8490 then [107]
      else if c = 8491 then [229]
      else [c])"

definition lower :: "str \<Rightarrow> str" where
  "lower s = concat (map lower_cp s)"

text \<open>
  \<open>str.strip()\<close> without argument removes leading and trailing whitespace, that is the code
  points for which \<open>str.isspace\<close> holds.
\<close>

definition isspace :: "codepoint \<Rightarrow> bool" where
  "isspace c \<longleftrightarrow>
     (9 \<le> c \<and> c \<le> 13) \<or> (28 \<le> c \<and> c \<le> 32) \<or> c = 133 \<or> c = 160 \<or> c = 5760
     \<or> (8192 \<le> c \<and> c \<le> 8202) \<or> c = 8232 \<or> c = 8233 \<or> c = 8239 \<or> c = 8287
     \<or> c = 12288"

definition strip :: "str \<Rightarrow> str" where
  "strip s = rev (dropWhile isspace (rev (dropWhile isspace s)))"

text \<open>The substring test \<open>w in t\<close> of two strings.\<close>

fun str_in :: "str \<Rightarrow> str \<Rightarrow> bool" where
  "str_in w [] = (w = [])"
| "str_in w (c # cs) = (prefix w (c # cs) \<or> str_in w cs)"

section \<open>Helper functions\<close>

subsection \<open>detect_platform\<close>

text \<open>
  The argument is what \<open>headers.items()\<close> yields: the (name, value) pairs in order, a name
  possibly occurring more than once (repeated header lines, or names that differ in case
  only). The dictionary comprehension \<open>{k.lower(): v for k, v in headers.items()}\<close> stores
  the pairs from left to right, so a later pair replaces an earlier one with the same
  lowercased name.
\<close>

type_synonym headers = "(str \<times> str) list"

definition lower_keys :: "headers \<Rightarrow> (str \<rightharpoonup> str)" where
  "lower_keys hs = fold (\<lambda>(k, v) h. h(lower k \<mapsto> v)) hs Map.empty"

definition detect_platform :: "headers \<Rightarrow> str" where
  "detect_platform hs =
     (let h = lower_keys hs in
      case h (ascii ''x-hub-signature'') of
        Some v \<Rightarrow>
          if str_in (ascii ''instagram'') (lower v) then ascii ''instagram''
          else ascii ''facebook''
      | None \<Rightarrow>
          if h (ascii ''tiktok-signature'') \<noteq> None then ascii ''tiktok''
          else if h (ascii ''x-twitter-auth'') \<noteq> None then ascii ''x''
          else ascii ''unknown'')"

subsection \<open>needs_manual_reply\<close>

definition urgent_words :: "str list" where
  "urgent_words =
     [ascii ''help'', ascii ''urgent'', ascii ''problem'', ascii ''question'',
      ascii ''issue'', ascii ''support'', ascii ''can you'', ascii ''please'', ascii ''???'']"

text \<open>
  The string literal iterated by the emoji test. It shows five emoji and holds six code
  points: U+1F642, U+1F60A, U+1F622, U+1F62D, and the red heart, which is U+2764 followed
  by the variation selector U+FE0F.
\<close>

definition emoji_literal :: str where
  "emoji_literal = [128578, 128522, 128546, 128557, 10084, 65039]"

definition needs_manual_reply :: "str \<Rightarrow> bool" where
  "needs_manual_reply text =
     (if text = [] then False
      else let t = lower text in
        if list_ex (\<lambda>w. str_in w t) urgent_words then True
        else if length t > 40 then True
        else if list_ex (\<lambda>ch. str_in [ch] text) emoji_literal then True
        else False)"

subsection \<open>nurse_greeting, pick, is_spam\<close>

definition nurse_greeting :: "str \<Rightarrow> str" where
  "nurse_greeting name =
     ascii ''Hello '' @ name @ ascii ''. How are you today? Is there anything you need?''"

fun pick :: "str list \<Rightarrow> str" where
  "pick [] = []"
| "pick (x # xs) = x"

definition bad :: "str list" where
  "bad = [ascii ''buy followers'', ascii ''crypto'', ascii ''viagra'', ascii ''casino'',
          ascii ''loan'']"

definition is_spam :: "str \<Rightarrow> bool" where
  "is_spam t0 = (let t = strip (lower t0) in list_ex (\<lambda>x. str_in x t) bad)"

subsection \<open>render_template\<close>

datatype error = KeyError str | IndexError | ValueError | TypeError | Unsupported

text \<open>
  \<open>render_template(t, **kw)\<close> is \<open>t.format(**kw)\<close>: no positional argument ever reaches
  \<open>str.format\<close>. The formatter walks the template from left to right. Its markup iterator
  yields literal code points and replacement fields and raises \<open>ValueError\<close> at a brace that
  is neither doubled nor part of a field; each field is looked up and written out as soon
  as it is read, so the first failure from the left is the one that is raised.

  Conversions (\<open>!r\<close>), format specifications (\<open>:>10\<close>) and attribute or index lookups
  (\<open>.a\<close>, \<open>[0]\<close>) inside a field are outside this embedding, which answers \<open>Unsupported\<close>
  when it meets one; no template of this program uses them.
\<close>

datatype piece = Literal codepoint | Field str | Bad error

fun markup :: "str \<Rightarrow> piece list" and field_name :: "str \<Rightarrow> str \<Rightarrow> piece list" where
  "markup [] = []"
| "markup (c # cs) =
     (if c = 123 then
        (case cs of
           [] \<Rightarrow> [Bad ValueError]
         | d # ds \<Rightarrow> if d = 123 then Literal 123 # markup ds else field_name [] cs)
      else if c = 125 then
        (case cs of
           [] \<Rightarrow> [Bad ValueError]
         | d # ds \<Rightarrow> if d = 125 then Literal 125 # markup ds else [Bad ValueError])
      else Literal c # markup cs)"
| "field_name acc [] = [Bad ValueError]"
| "field_name acc (c # cs) =
     (if c = 125 then Field acc # markup cs
      else if c = 123 then [Bad ValueError]
      else if c = 33 \<or> c = 58 \<or> c = 46 \<or> c = 91 then [Bad Unsupported]
      else field_name (acc @ [c]) cs)"

text \<open>
  The formatter first reads a field name as a number. Every Unicode decimal digit counts
  as a digit, not only \<open>0\<close> to \<open>9\<close>: the digits come in runs of ten consecutive code points,
  and \<open>decimal_zeros\<close> lists the first code point of each run (Unicode 14, the character
  database of CPython 3.11). A name that is a number, or empty, indexes the positional
  arguments, of which there are none, and raises \<open>IndexError\<close>; a number above
  \<open>PY_SSIZE_T_MAX\<close> (here that of a 64-bit build) raises \<open>ValueError\<close> instead. Any other name
  is a key of \<open>kw\<close> and raises \<open>KeyError\<close> when absent. The values are strings and are written
  unchanged; they are not scanned again.
\<close>

definition decimal_zeros :: "codepoint list" where
  "decimal_zeros =
     [48, 1632, 1776, 1984, 2406, 2534, 2662, 2790, 2918, 3046, 3174, 3302, 3430, 3558, 3664,
      3792, 3872, 4160, 4240, 6112, 6160, 6470, 6608, 6784, 6800, 6992, 7088, 7232, 7248,
      42528, 43216, 43264, 43472, 43504, 43600, 44016, 65296, 66720, 68912, 69734, 69872,
      69942, 70096, 70384, 70736, 70864, 71248, 71360, 71472, 71904, 72016, 72784, 73040,
      73120, 92768, 92864, 93008, 120782, 120792, 120802, 120812, 120822, 123200, 123632,
      125264, 130032]"

definition todecimal :: "codepoint \<Rightarrow> nat option" where
  "todecimal c = map_option (\<lambda>z. c - z) (find (\<lambda>z. z \<le> c \<and> c < z + 10) decimal_zeros)"

definition PY_SSIZE_T_MAX :: nat where
  "PY_SSIZE_T_MAX = 9223372036854775807"

datatype integer_result = NotInteger | TooManyDigits | Position nat

fun get_integer :: "nat \<Rightarrow> str \<Rightarrow> integer_result" where
  "get_integer accumulator [] = Position accumulator"
| "get_integer accumulator (c # cs) =
     (case todecimal c of
        None \<Rightarrow> NotInteger
      | Some digitval \<Rightarrow>
          if accumulator > (PY_SSIZE_T_MAX - digitval) div 10 then TooManyDigits
          else get_integer (accumulator * 10 + digitval) cs)"

definition get_field :: "(str \<rightharpoonup> str) \<Rightarrow> str \<Rightarrow> error + str" where
  "get_field kw n =
     (if n = [] then Inl IndexError
      else case get_integer 0 n of
        TooManyDigits \<Rightarrow> Inl ValueError
      | Position i \<Rightarrow> Inl IndexError
      | NotInteger \<Rightarrow> (case kw n of None \<Rightarrow> Inl (KeyError n) | Some v \<Rightarrow> Inr v))"

fun build_string :: "(str \<rightharpoonup> str) \<Rightarrow> piece list \<Rightarrow> error + str" where
  "build_string kw [] = Inr []"
| "build_string kw (Literal c # ps) =
     (case build_string kw ps of Inl e \<Rightarrow> Inl e | Inr s \<Rightarrow> Inr (c # s))"
| "build_string kw (Field n # ps) =
     (case get_field kw n of
        Inl e \<Rightarrow> Inl e
      | Inr v \<Rightarrow> (case build_string kw ps of Inl e \<Rightarrow> Inl e | Inr s \<Rightarrow> Inr (v @ s)))"
| "build_string kw (Bad e # ps) = Inl e"

definition format :: "str \<Rightarrow> (str \<rightharpoonup> str) \<Rightarrow> error + str" where
  "format t kw = build_string kw (markup t)"

text \<open>
  The template is the parameter \<open>t\<close> of \<open>render_template\<close>, so a keyword argument named \<open>t\<close>
  collides with it and the call raises \<open>TypeError\<close> before anything is formatted.
\<close>

definition render_template :: "str \<Rightarrow> (str \<rightharpoonup> str) \<Rightarrow> error + str" where
  "render_template t kw = (if kw (ascii ''t'') \<noteq> None then Inl TypeError else format t kw)"

section \<open>App and config\<close>

text \<open>
  The five module constants read from the environment at start-up. Their values are not
  fixed by the program, so the handlers take them as a parameter.
\<close>

record config =
  BRAND_NAME :: str
  NURSE_MEDIA_URL :: str
  NURSE_CURTAIN_URL :: str
  NURSE_BED_URL :: str
  NURSE_NIL_URL :: str

text \<open>The request model \<open>Message\<close> with its fields \<open>name\<close> and \<open>text\<close>.\<close>

record message =
  msg_name :: str
  msg_text :: str

text \<open>
  Dictionaries with literal keys (the template table and the response payloads) are
  association lists in the order of the source; subscripting raises \<open>KeyError\<close> on a
  missing key.
\<close>

definition getitem :: "(string \<times> 'v) list \<Rightarrow> string \<Rightarrow> error + 'v" where
  "getitem d k = (case map_of d k of None \<Rightarrow> Inl (KeyError (ascii k)) | Some v \<Rightarrow> Inr v)"

definition DEFAULT_TEMPLATES :: "(string \<times> (string \<times> str list) list) list" where
  "DEFAULT_TEMPLATES =
     [(''welcome'',
        [(''warm'',
           [ascii ''Hey {NAME}! I'' @ [8217] @ ascii ''m {BRAND_NAME}. What are you into ''
              @ [8212] @ ascii '' guitars, lyrics, or good vibes?''])]),
      (''probe'',
        [(''pro'',
           [ascii
              ''Hello {NAME}. Are you interested in new releases, catalogue links, or something else?''])]),
      (''boundary'',
        [(''pro'', [ascii ''Hello {NAME}. This inbox is for music-related chat.''])])]"

datatype json = Str str | Bool bool | Dict "(string \<times> json) list"

section \<open>Routes\<close>

definition bind :: "error + 'a \<Rightarrow> ('a \<Rightarrow> error + 'b) \<Rightarrow> error + 'b" where
  "bind r f = (case r of Inl e \<Rightarrow> Inl e | Inr x \<Rightarrow> f x)"

text \<open>
  The expression \<open>render_template(pick(DEFAULT_TEMPLATES[category][style]), NAME=msg.name,
  BRAND_NAME=BRAND_NAME)\<close> shared by three branches of \<open>reply\<close>.
\<close>

definition render_pick :: "config \<Rightarrow> message \<Rightarrow> string \<Rightarrow> string \<Rightarrow> error + str" where
  "render_pick cfg msg category style =
     bind (getitem DEFAULT_TEMPLATES category) (\<lambda>styles.
     bind (getitem styles style) (\<lambda>lst.
       render_template (pick lst)
         [ascii ''NAME'' \<mapsto> msg_name msg, ascii ''BRAND_NAME'' \<mapsto> BRAND_NAME cfg]))"

definition nurse_images :: "config \<Rightarrow> json" where
  "nurse_images cfg =
     Dict [(''main'', Str (NURSE_MEDIA_URL cfg)),
           (''curtain'', Str (NURSE_CURTAIN_URL cfg)),
           (''bed'', Str (NURSE_BED_URL cfg)),
           (''nil_by_mouth'', Str (NURSE_NIL_URL cfg))]"

definition reply :: "config \<Rightarrow> message \<Rightarrow> headers \<Rightarrow> error + json" where
  "reply cfg msg hs =
     (let platform = detect_platform hs;
          manual_required = needs_manual_reply (msg_text msg)
      in
        if is_spam (msg_text msg) then
          bind (render_pick cfg msg ''boundary'' ''pro'') (\<lambda>reply_text.
            Inr (Dict [(''reply'', Str reply_text),
                       (''platform'', Str platform),
                       (''manual_required'', Bool manual_required)]))
        else
          let t = lower (msg_text msg) in
          if str_in (ascii ''nurse'') t then
            let reply_text = nurse_greeting (msg_name msg) in
            Inr (Dict [(''reply'', Str reply_text),
                       (''platform'', Str platform),
                       (''manual_required'', Bool manual_required),
                       (''nurse_images'', nurse_images cfg)])
          else if list_ex (\<lambda>word. str_in word t)
                    [ascii ''hi'', ascii ''hello'', ascii ''hey'', ascii ''yo''] then
            bind (render_pick cfg msg ''welcome'' ''warm'') (\<lambda>reply_text.
              Inr (Dict [(''reply'', Str reply_text),
                         (''platform'', Str platform),
                         (''manual_required'', Bool manual_required)]))
          else
            bind (render_pick cfg msg ''probe'' ''pro'') (\<lambda>reply_text.
              Inr (Dict [(''reply'', Str reply_text),
                         (''platform'', Str platform),
                         (''manual_required'', Bool manual_required)])))"

definition test_nurse :: "config \<Rightarrow> headers \<Rightarrow> json" where
  "test_nurse cfg hs =
     (let msg = \<lparr>msg_name = ascii ''Keith'', msg_text = ascii ''nurse''\<rparr>;
          platform = detect_platform hs;
          manual_required = needs_manual_reply (msg_text msg);
          reply_text = nurse_greeting (msg_name msg)
      in Dict [(''reply'', Str reply_text),
               (''platform'', Str platform),
               (''manual_required'', Bool manual_required),
               (''nurse_images'', nurse_images cfg)])"

section \<open>Vocabulary of the specification\<close>

text \<open>The configuration of a process started with none of the five variables set.\<close>

definition default_config :: config where
  "default_config =
     \<lparr>BRAND_NAME = ascii ''Captain Lethargy'', NURSE_MEDIA_URL = [], NURSE_CURTAIN_URL = [],
      NURSE_BED_URL = [], NURSE_NIL_URL = []\<rparr>"

text \<open>
  A header set has a header of a given (lowercase) name when some pair's name lowercases
  to it.
\<close>

definition has_header :: "headers \<Rightarrow> str \<Rightarrow> bool" where
  "has_header hs n = list_ex (\<lambda>(k, v). lower k = n) hs"

definition platform_tags :: "str list" where
  "platform_tags =
     [ascii ''facebook'', ascii ''instagram'', ascii ''tiktok'', ascii ''x'', ascii ''unknown'']"

text \<open>
  The manual-reply rule as the specification words it: the five emoji characters are the
  four faces and the heart U+2764, and the length bound is on the text itself.
\<close>

definition five_emoji :: "codepoint list" where
  "five_emoji = [128578, 128522, 128546, 128557, 10084]"

definition spec_needs_manual_reply :: "str \<Rightarrow> bool" where
  "spec_needs_manual_reply text \<longleftrightarrow>
     text \<noteq> [] \<and>
     (list_ex (\<lambda>w. str_in w (lower text)) urgent_words
      \<or> length text > 40
      \<or> list_ex (\<lambda>ch. ch \<in> set text) five_emoji)"











section \<open>Facts about strings\<close>

lemma str_in_sublist: "str_in w t \<longleftrightarrow> sublist w t"
  by (induction t) (auto simp: sublist_Cons_right)

lemma str_in_iff: "str_in w t \<longleftrightarrow> (\<exists>p s. t = p @ w @ s)"
  by (simp add: str_in_sublist sublist_def)

lemma str_in_single: "str_in [c] t \<longleftrightarrow> c \<in> set t"
  by (induction t) auto

lemma length_lower_cp: "1 \<le> length (lower_cp c)"
  by (simp add: lower_cp_def)

lemma length_lower: "length t \<le> length (lower t)"
proof (induction t)
  case Nil
  show ?case by (simp add: lower_def)
next
  case (Cons c cs)
  have "length (lower (c # cs)) = length (lower_cp c) + length (lower cs)"
    by (simp add: lower_def)
  with Cons length_lower_cp [of c] show ?case by simp
qed

lemma sublist_dropWhile:
  assumes "w \<noteq> []" and "\<not> P (hd w)"
  shows "sublist w (dropWhile P s) \<longleftrightarrow> sublist w s"
proof (induction s)
  case Nil
  show ?case by simp
next
  case (Cons c cs)
  show ?case
  proof (cases "P c")
    case True
    have "\<not> prefix w (c # cs)"
    proof
      assume "prefix w (c # cs)"
      with assms(1) have "hd w = c" by (cases w) auto
      with assms(2) True show False by simp
    qed
    with True Cons show ?thesis by (simp add: sublist_Cons_right)
  next
    case False
    then show ?thesis by simp
  qed
qed

text \<open>Trimming cannot hide or create a word that neither starts nor ends with whitespace.\<close>

lemma str_in_strip:
  assumes "w \<noteq> []" and "\<not> isspace (hd w)" and "\<not> isspace (last w)"
  shows "str_in w (strip s) \<longleftrightarrow> str_in w s"
proof -
  have r: "rev w \<noteq> []" "\<not> isspace (hd (rev w))"
    using assms by (simp_all add: hd_rev)
  have "sublist w (strip s) \<longleftrightarrow> sublist (rev w) (dropWhile isspace (rev (dropWhile isspace s)))"
    unfolding strip_def by (metis sublist_rev rev_rev_ident)
  also have "\<dots> \<longleftrightarrow> sublist (rev w) (rev (dropWhile isspace s))"
    using r by (rule sublist_dropWhile)
  also have "\<dots> \<longleftrightarrow> sublist w (dropWhile isspace s)"
    by simp
  also have "\<dots> \<longleftrightarrow> sublist w s"
    using assms(1,2) by (rule sublist_dropWhile)
  finally show ?thesis by (simp add: str_in_sublist)
qed

lemma is_spam_iff: "is_spam t \<longleftrightarrow> (\<exists>x\<in>set bad. str_in x (lower t))"
proof -
  have "\<forall>x\<in>set bad. x \<noteq> [] \<and> \<not> isspace (hd x) \<and> \<not> isspace (last x)"
    by (simp add: bad_def ascii_def isspace_def)
  then have "\<forall>x\<in>set bad. str_in x (strip (lower t)) = str_in x (lower t)"
    using str_in_strip by blast
  then show ?thesis
    by (simp add: is_spam_def list_ex_iff)
qed

section \<open>Rendering the fixed templates\<close>

lemma render_boundary:
  "render_pick cfg msg ''boundary'' ''pro'' =
     Inr (ascii ''Hello '' @ msg_name msg @ ascii ''. This inbox is for music-related chat.'')"
  by (simp add: render_pick_def bind_def getitem_def DEFAULT_TEMPLATES_def
      render_template_def format_def ascii_def get_field_def todecimal_def decimal_zeros_def)

lemma render_welcome:
  "render_pick cfg msg ''welcome'' ''warm'' =
     Inr (ascii ''Hey '' @ msg_name msg @ ascii ''! I'' @ [8217] @ ascii ''m '' @ BRAND_NAME cfg
          @ ascii ''. What are you into '' @ [8212] @ ascii '' guitars, lyrics, or good vibes?'')"
  by (simp add: render_pick_def bind_def getitem_def DEFAULT_TEMPLATES_def
      render_template_def format_def ascii_def get_field_def todecimal_def decimal_zeros_def)

lemma render_probe:
  "render_pick cfg msg ''probe'' ''pro'' =
     Inr (ascii ''Hello '' @ msg_name msg
          @ ascii ''. Are you interested in new releases, catalogue links, or something else?'')"
  by (simp add: render_pick_def bind_def getitem_def DEFAULT_TEMPLATES_def
      render_template_def format_def ascii_def get_field_def todecimal_def decimal_zeros_def)

section \<open>The branches of the reply handler\<close>

lemma reply_spam:
  assumes "is_spam (msg_text msg)"
  shows "reply cfg msg hs =
     Inr (Dict [(''reply'', Str (ascii ''Hello '' @ msg_name msg
                   @ ascii ''. This inbox is for music-related chat.'')),
                (''platform'', Str (detect_platform hs)),
                (''manual_required'', Bool (needs_manual_reply (msg_text msg)))])"
  using assms by (simp add: reply_def render_boundary bind_def)

lemma reply_nurse:
  assumes "\<not> is_spam (msg_text msg)" and "str_in (ascii ''nurse'') (lower (msg_text msg))"
  shows "reply cfg msg hs =
     Inr (Dict [(''reply'', Str (nurse_greeting (msg_name msg))),
                (''platform'', Str (detect_platform hs)),
                (''manual_required'', Bool (needs_manual_reply (msg_text msg))),
                (''nurse_images'',
                   Dict [(''main'', Str (NURSE_MEDIA_URL cfg)),
                         (''curtain'', Str (NURSE_CURTAIN_URL cfg)),
                         (''bed'', Str (NURSE_BED_URL cfg)),
                         (''nil_by_mouth'', Str (NURSE_NIL_URL cfg))])])"
  using assms by (simp add: reply_def nurse_images_def)

lemma reply_greeting:
  assumes "\<not> is_spam (msg_text msg)" and "\<not> str_in (ascii ''nurse'') (lower (msg_text msg))"
    and "str_in (ascii ''hi'') (lower (msg_text msg))
         \<or> str_in (ascii ''hello'') (lower (msg_text msg))
         \<or> str_in (ascii ''hey'') (lower (msg_text msg))
         \<or> str_in (ascii ''yo'') (lower (msg_text msg))"
  shows "reply cfg msg hs =
     Inr (Dict [(''reply'', Str (ascii ''Hey '' @ msg_name msg @ ascii ''! I'' @ [8217]
                   @ ascii ''m '' @ BRAND_NAME cfg @ ascii ''. What are you into '' @ [8212]
                   @ ascii '' guitars, lyrics, or good vibes?'')),
                (''platform'', Str (detect_platform hs)),
                (''manual_required'', Bool (needs_manual_reply (msg_text msg)))])"
  using assms by (simp add: reply_def render_welcome bind_def)

lemma reply_default:
  assumes "\<not> is_spam (msg_text msg)" and "\<not> str_in (ascii ''nurse'') (lower (msg_text msg))"
    and "\<not> str_in (ascii ''hi'') (lower (msg_text msg))"
    and "\<not> str_in (ascii ''hello'') (lower (msg_text msg))"
    and "\<not> str_in (ascii ''hey'') (lower (msg_text msg))"
    and "\<not> str_in (ascii ''yo'') (lower (msg_text msg))"
  shows "reply cfg msg hs =
     Inr (Dict [(''reply'', Str (ascii ''Hello '' @ msg_name msg
                   @ ascii ''. Are you interested in new releases, catalogue links, or something else?'')),
                (''platform'', Str (detect_platform hs)),
                (''manual_required'', Bool (needs_manual_reply (msg_text msg)))])"
  using assms by (simp add: reply_def render_probe bind_def)

section \<open>Facts about needs_manual_reply\<close>

lemma needs_manual_reply_iff:
  "needs_manual_reply text \<longleftrightarrow>
     text \<noteq> [] \<and>
     ((\<exists>w\<in>set urgent_words. str_in w (lower text))
      \<or> 40 < length (lower text)
      \<or> (\<exists>ch\<in>set emoji_literal. ch \<in> set text))"
  by (simp add: needs_manual_reply_def Let_def list_ex_iff str_in_single)

lemma length_lower_dotted: "length (lower (replicate n 304)) = 2 * n"
  by (induction n) (simp_all add: lower_def lower_cp_def)

lemma set_lower_dotted: "set (lower (replicate n 304)) \<subseteq> {105, 775}"
  by (induction n) (simp_all add: lower_def lower_cp_def)

section \<open>Facts about detect_platform\<close>

lemma fold_lower_keys_other:
  "\<not> has_header hs n \<Longrightarrow> fold (\<lambda>(k, v) h. h(lower k \<mapsto> v)) hs m n = m n"
  by (induction hs arbitrary: m) (auto simp: has_header_def)

lemma fold_lower_keys_some:
  "has_header hs n \<Longrightarrow> fold (\<lambda>(k, v) h. h(lower k \<mapsto> v)) hs m n \<noteq> None"
proof (induction hs arbitrary: m)
  case Nil
  then show ?case by (simp add: has_header_def)
next
  case (Cons p ps)
  let ?F = "\<lambda>(k, v) h. h(lower k \<mapsto> v)"
  obtain k v where p: "p = (k, v)" by (cases p)
  have step: "fold ?F (p # ps) m = fold ?F ps (m(lower k \<mapsto> v))"
    by (simp add: p)
  show ?case
  proof (cases "has_header ps n")
    case True
    then have "fold ?F ps (m(lower k \<mapsto> v)) n \<noteq> None"
      by (rule Cons.IH)
    then show ?thesis unfolding step .
  next
    case False
    with Cons.prems p have k: "lower k = n" by (simp add: has_header_def)
    from False have "fold ?F ps (m(lower k \<mapsto> v)) n = (m(lower k \<mapsto> v)) n"
      by (rule fold_lower_keys_other)
    then have "fold ?F (p # ps) m n = (m(lower k \<mapsto> v)) n"
      unfolding step .
    also have "\<dots> = Some v"
      using k by simp
    finally have r: "fold ?F (p # ps) m n = Some v" .
    show ?thesis unfolding r by simp
  qed
qed

lemma lower_keys_None_iff: "lower_keys hs n = None \<longleftrightarrow> \<not> has_header hs n"
  using fold_lower_keys_other [of hs n Map.empty] fold_lower_keys_some [of hs n Map.empty]
  by (auto simp: lower_keys_def)

lemma lower_keys_last:
  assumes "\<not> has_header post (lower k)"
  shows "lower_keys (pre @ (k, v) # post) (lower k) = Some v"
  using assms by (simp add: lower_keys_def fold_lower_keys_other)

section \<open>Facts about render_template\<close>













section \<open>The claims\<close>

text \<open>
  C7: \<open>is_spam\<close> lowercases and trims the text and answers true exactly when one of the five
  bad substrings occurs in the result, which is the case exactly when one occurs in the
  lowercased text, since no bad substring starts or ends with whitespace. The text
  \<open>please help??? crypto\<close> contains \<open>crypto\<close>, so for every name, configuration and header
  set the handler answers with the boundary template, although the urgency words set
  \<open>manual_required\<close>.
\<close>

theorem is_spam_bad_substrings:
  "(is_spam t \<longleftrightarrow> (\<exists>x\<in>set bad. str_in x (strip (lower t))))
   \<and> (is_spam t \<longleftrightarrow> (\<exists>x\<in>set bad. str_in x (lower t)))
   \<and> bad = [ascii ''buy followers'', ascii ''crypto'', ascii ''viagra'', ascii ''casino'',
             ascii ''loan'']
   \<and> str_in (ascii ''crypto'') (lower (ascii ''please help??? crypto''))
   \<and> reply cfg \<lparr>msg_name = n, msg_text = ascii ''please help??? crypto''\<rparr> hs =
       Inr (Dict [(''reply'', Str (ascii ''Hello '' @ n
                     @ ascii ''. This inbox is for music-related chat.'')),
                  (''platform'', Str (detect_platform hs)),
                  (''manual_required'', Bool True)])"
proof -
  let ?text = "ascii ''please help??? crypto''"
  have a: "is_spam t \<longleftrightarrow> (\<exists>x\<in>set bad. str_in x (strip (lower t)))"
    by (simp add: is_spam_def list_ex_iff)
  have b: "str_in (ascii ''crypto'') (lower ?text)"
    by (simp add: ascii_def lower_def lower_cp_def)
  have "ascii ''crypto'' \<in> set bad"
    by (simp add: bad_def)
  with b have c: "is_spam ?text"
    unfolding is_spam_iff by blast
  have d: "needs_manual_reply ?text"
    by (simp add: needs_manual_reply_def urgent_words_def ascii_def lower_def lower_cp_def)
  have "reply cfg \<lparr>msg_name = n, msg_text = ?text\<rparr> hs =
       Inr (Dict [(''reply'', Str (ascii ''Hello '' @ n
                     @ ascii ''. This inbox is for music-related chat.'')),
                  (''platform'', Str (detect_platform hs)),
                  (''manual_required'', Bool True)])"
    using reply_spam [of "\<lparr>msg_name = n, msg_text = ?text\<rparr>" cfg hs] c d by simp
  with a b show ?thesis
    using is_spam_iff [of t] by (simp add: bad_def)
qed

theorem is_spam_bad_substrings_witness:
  "is_spam (ascii ''  Cheap LOAN today  '')
   \<and> \<not> is_spam (ascii ''lo an'')
   \<and> reply default_config \<lparr>msg_name = ascii ''Ana'', msg_text = ascii ''please help??? crypto''\<rparr> [] =
       Inr (Dict [(''reply'', Str (ascii ''Hello Ana. This inbox is for music-related chat.'')),
                  (''platform'', Str (ascii ''unknown'')),
                  (''manual_required'', Bool True)])"
proof -
  have a: "str_in (ascii ''loan'') (lower (ascii ''  Cheap LOAN today  ''))"
    by (simp add: ascii_def lower_def lower_cp_def)
  have b: "\<not> (\<exists>x\<in>set bad. str_in x (lower (ascii ''lo an'')))"
    by (simp add: bad_def ascii_def lower_def lower_cp_def)
  have c: "detect_platform [] = ascii ''unknown''"
    by (simp add: detect_platform_def lower_keys_def ascii_def)
  have d: "ascii ''loan'' \<in> set bad"
    by (simp add: bad_def)
  show ?thesis
    using is_spam_bad_substrings [of "ascii ''  Cheap LOAN today  ''" default_config "ascii ''Ana''" "[]"]
      is_spam_bad_substrings [of "ascii ''lo an''" default_config "ascii ''Ana''" "[]"] a b c d
    by (auto simp add: ascii_def)
qed

text \<open>
  C1, as stated, fails: the spam guard is tested before the nurse keyword, so a text that
  contains both \<open>nurse\<close> and a bad substring gets the boundary template and no
  \<open>nurse_images\<close> block.
\<close>

theorem nurse_text_spam_counterexample:
  "str_in (ascii ''nurse'') (lower (ascii ''nurse crypto''))
   \<and> reply default_config \<lparr>msg_name = ascii ''Ana'', msg_text = ascii ''nurse crypto''\<rparr> [] =
       Inr (Dict [(''reply'', Str (ascii ''Hello Ana. This inbox is for music-related chat.'')),
                  (''platform'', Str (ascii ''unknown'')),
                  (''manual_required'', Bool False)])
   \<and> nurse_greeting (ascii ''Ana'')
       \<noteq> ascii ''Hello Ana. This inbox is for music-related chat.''"
proof -
  let ?text = "ascii ''nurse crypto''"
  have a: "str_in (ascii ''nurse'') (lower ?text)"
    by (simp add: ascii_def lower_def lower_cp_def)
  have b: "is_spam ?text"
    by (simp add: is_spam_def bad_def strip_def isspace_def ascii_def lower_def lower_cp_def)
  have c: "\<not> needs_manual_reply ?text"
    by (simp add: needs_manual_reply_def urgent_words_def emoji_literal_def ascii_def
        lower_def lower_cp_def)
  have d: "detect_platform [] = ascii ''unknown''"
    by (simp add: detect_platform_def lower_keys_def ascii_def)
  have e: "nurse_greeting (ascii ''Ana'')
       \<noteq> ascii ''Hello Ana. This inbox is for music-related chat.''"
    by (simp add: nurse_greeting_def ascii_def)
  have "reply default_config \<lparr>msg_name = ascii ''Ana'', msg_text = ?text\<rparr> [] =
       Inr (Dict [(''reply'', Str (ascii ''Hello Ana. This inbox is for music-related chat.'')),
                  (''platform'', Str (ascii ''unknown'')),
                  (''manual_required'', Bool False)])"
    using reply_spam [of "\<lparr>msg_name = ascii ''Ana'', msg_text = ?text\<rparr>" default_config "[]"]
      b c d by (simp add: ascii_def)
  with a e show ?thesis by simp
qed

text \<open>
  C1, amended: for every message that is not spam and whose lowercased text contains
  \<open>nurse\<close>, the handler returns the nurse greeting with the given name interpolated, and the
  response carries a \<open>nurse_images\<close> block with exactly the four keys \<open>main\<close>, \<open>curtain\<close>,
  \<open>bed\<close> and \<open>nil_by_mouth\<close>.
\<close>

theorem nurse_reply_unless_spam:
  assumes "str_in (ascii ''nurse'') (lower (msg_text msg))" and "\<not> is_spam (msg_text msg)"
  shows "reply cfg msg hs =
     Inr (Dict [(''reply'', Str (ascii ''Hello '' @ msg_name msg
                   @ ascii ''. How are you today? Is there anything you need?'')),
                (''platform'', Str (detect_platform hs)),
                (''manual_required'', Bool (needs_manual_reply (msg_text msg))),
                (''nurse_images'',
                   Dict [(''main'', Str (NURSE_MEDIA_URL cfg)),
                         (''curtain'', Str (NURSE_CURTAIN_URL cfg)),
                         (''bed'', Str (NURSE_BED_URL cfg)),
                         (''nil_by_mouth'', Str (NURSE_NIL_URL cfg))])])"
  using reply_nurse [OF assms(2) assms(1)] by (simp add: nurse_greeting_def)

theorem nurse_reply_unless_spam_witness:
  "str_in (ascii ''nurse'') (lower (ascii ''Is the NURSE in?''))
   \<and> \<not> is_spam (ascii ''Is the NURSE in?'')
   \<and> reply default_config \<lparr>msg_name = ascii ''Ana'', msg_text = ascii ''Is the NURSE in?''\<rparr> [] =
     Inr (Dict [(''reply'', Str (ascii ''Hello Ana. How are you today? Is there anything you need?'')),
                (''platform'', Str (ascii ''unknown'')),
                (''manual_required'', Bool False),
                (''nurse_images'',
                   Dict [(''main'', Str []), (''curtain'', Str []), (''bed'', Str []),
                         (''nil_by_mouth'', Str [])])])"
proof -
  let ?text = "ascii ''Is the NURSE in?''"
  have a: "str_in (ascii ''nurse'') (lower ?text)"
    by (simp add: ascii_def lower_def lower_cp_def)
  have b: "\<not> is_spam ?text"
    by (simp add: is_spam_def bad_def strip_def isspace_def ascii_def lower_def lower_cp_def)
  have c: "\<not> needs_manual_reply ?text"
    by (simp add: needs_manual_reply_def urgent_words_def emoji_literal_def ascii_def
        lower_def lower_cp_def)
  have d: "detect_platform [] = ascii ''unknown''"
    by (simp add: detect_platform_def lower_keys_def ascii_def)
  show ?thesis
    using nurse_reply_unless_spam
      [of "\<lparr>msg_name = ascii ''Ana'', msg_text = ?text\<rparr>" default_config "[]"] a b c d
    by (simp add: default_config_def ascii_def)
qed

text \<open>
  C2: the handler tries its branches in a fixed order and the first that matches decides:
  spam gives the boundary template and a payload of three keys, without \<open>nurse_images\<close>;
  otherwise \<open>nurse\<close> in the lowercased text gives the nurse greeting and the
  \<open>nurse_images\<close> block; otherwise one of \<open>hi\<close>, \<open>hello\<close>, \<open>hey\<close>, \<open>yo\<close> in the lowercased
  text gives the welcome template; otherwise the probe template is returned.
\<close>

theorem reply_priority_order:
  "(is_spam (msg_text msg) \<longrightarrow>
      reply cfg msg hs =
        Inr (Dict [(''reply'', Str (ascii ''Hello '' @ msg_name msg
                      @ ascii ''. This inbox is for music-related chat.'')),
                   (''platform'', Str (detect_platform hs)),
                   (''manual_required'', Bool (needs_manual_reply (msg_text msg)))]))
   \<and> (\<not> is_spam (msg_text msg) \<and> str_in (ascii ''nurse'') (lower (msg_text msg)) \<longrightarrow>
      reply cfg msg hs =
        Inr (Dict [(''reply'', Str (nurse_greeting (msg_name msg))),
                   (''platform'', Str (detect_platform hs)),
                   (''manual_required'', Bool (needs_manual_reply (msg_text msg))),
                   (''nurse_images'',
                      Dict [(''main'', Str (NURSE_MEDIA_URL cfg)),
                            (''curtain'', Str (NURSE_CURTAIN_URL cfg)),
                            (''bed'', Str (NURSE_BED_URL cfg)),
                            (''nil_by_mouth'', Str (NURSE_NIL_URL cfg))])]))
   \<and> (\<not> is_spam (msg_text msg) \<and> \<not> str_in (ascii ''nurse'') (lower (msg_text msg))
       \<and> (str_in (ascii ''hi'') (lower (msg_text msg))
            \<or> str_in (ascii ''hello'') (lower (msg_text msg))
            \<or> str_in (ascii ''hey'') (lower (msg_text msg))
            \<or> str_in (ascii ''yo'') (lower (msg_text msg))) \<longrightarrow>
      reply cfg msg hs =
        Inr (Dict [(''reply'', Str (ascii ''Hey '' @ msg_name msg @ ascii ''! I'' @ [8217]
                      @ ascii ''m '' @ BRAND_NAME cfg @ ascii ''. What are you into '' @ [8212]
                      @ ascii '' guitars, lyrics, or good vibes?'')),
                   (''platform'', Str (detect_platform hs)),
                   (''manual_required'', Bool (needs_manual_reply (msg_text msg)))]))
   \<and> (\<not> is_spam (msg_text msg) \<and> \<not> str_in (ascii ''nurse'') (lower (msg_text msg))
       \<and> \<not> str_in (ascii ''hi'') (lower (msg_text msg))
       \<and> \<not> str_in (ascii ''hello'') (lower (msg_text msg))
       \<and> \<not> str_in (ascii ''hey'') (lower (msg_text msg))
       \<and> \<not> str_in (ascii ''yo'') (lower (msg_text msg)) \<longrightarrow>
      reply cfg msg hs =
        Inr (Dict [(''reply'', Str (ascii ''Hello '' @ msg_name msg
                      @ ascii ''. Are you interested in new releases, catalogue links, or something else?'')),
                   (''platform'', Str (detect_platform hs)),
                   (''manual_required'', Bool (needs_manual_reply (msg_text msg)))]))"
  using reply_spam [of msg cfg hs] reply_nurse [of msg cfg hs] reply_greeting [of msg cfg hs]
    reply_default [of msg cfg hs]
  by blast

theorem reply_priority_order_witness:
  "reply default_config \<lparr>msg_name = ascii ''Ana'', msg_text = ascii ''hi nurse, casino?''\<rparr> [] =
     Inr (Dict [(''reply'', Str (ascii ''Hello Ana. This inbox is for music-related chat.'')),
                (''platform'', Str (ascii ''unknown'')),
                (''manual_required'', Bool False)])
   \<and> reply default_config \<lparr>msg_name = ascii ''Ana'', msg_text = ascii ''hi nurse''\<rparr> [] =
     Inr (Dict [(''reply'', Str (ascii ''Hello Ana. How are you today? Is there anything you need?'')),
                (''platform'', Str (ascii ''unknown'')),
                (''manual_required'', Bool False),
                (''nurse_images'',
                   Dict [(''main'', Str []), (''curtain'', Str []), (''bed'', Str []),
                         (''nil_by_mouth'', Str [])])])
   \<and> reply default_config \<lparr>msg_name = ascii ''Ana'', msg_text = ascii ''hey''\<rparr> [] =
     Inr (Dict [(''reply'', Str (ascii ''Hey Ana! I'' @ [8217]
                   @ ascii ''m Captain Lethargy. What are you into '' @ [8212]
                   @ ascii '' guitars, lyrics, or good vibes?'')),
                (''platform'', Str (ascii ''unknown'')),
                (''manual_required'', Bool False)])
   \<and> reply default_config \<lparr>msg_name = ascii ''Ana'', msg_text = ascii ''good morning''\<rparr> [] =
     Inr (Dict [(''reply'', Str (ascii
                   ''Hello Ana. Are you interested in new releases, catalogue links, or something else?'')),
                (''platform'', Str (ascii ''unknown'')),
                (''manual_required'', Bool False)])"
proof -
  have p: "detect_platform [] = ascii ''unknown''"
    by (simp add: detect_platform_def lower_keys_def ascii_def)
  let ?t1 = "ascii ''hi nurse, casino?''"
  have "is_spam ?t1" "\<not> needs_manual_reply ?t1"
    by (simp_all add: is_spam_def bad_def strip_def isspace_def needs_manual_reply_def
        urgent_words_def emoji_literal_def ascii_def lower_def lower_cp_def)
  then have 1: "reply default_config \<lparr>msg_name = ascii ''Ana'', msg_text = ?t1\<rparr> [] =
     Inr (Dict [(''reply'', Str (ascii ''Hello Ana. This inbox is for music-related chat.'')),
                (''platform'', Str (ascii ''unknown'')),
                (''manual_required'', Bool False)])"
    using reply_priority_order [of "\<lparr>msg_name = ascii ''Ana'', msg_text = ?t1\<rparr>" default_config "[]"] p
    by (simp add: ascii_def)
  let ?t2 = "ascii ''hi nurse''"
  have "\<not> is_spam ?t2" "\<not> needs_manual_reply ?t2" "str_in (ascii ''nurse'') (lower ?t2)"
    by (simp_all add: is_spam_def bad_def strip_def isspace_def needs_manual_reply_def
        urgent_words_def emoji_literal_def ascii_def lower_def lower_cp_def)
  then have 2: "reply default_config \<lparr>msg_name = ascii ''Ana'', msg_text = ?t2\<rparr> [] =
     Inr (Dict [(''reply'', Str (ascii ''Hello Ana. How are you today? Is there anything you need?'')),
                (''platform'', Str (ascii ''unknown'')),
                (''manual_required'', Bool False),
                (''nurse_images'',
                   Dict [(''main'', Str []), (''curtain'', Str []), (''bed'', Str []),
                         (''nil_by_mouth'', Str [])])])"
    using reply_priority_order [of "\<lparr>msg_name = ascii ''Ana'', msg_text = ?t2\<rparr>" default_config "[]"] p
    by (simp add: ascii_def default_config_def nurse_greeting_def)
  let ?t3 = "ascii ''hey''"
  have "\<not> is_spam ?t3" "\<not> needs_manual_reply ?t3" "\<not> str_in (ascii ''nurse'') (lower ?t3)"
    "str_in (ascii ''hey'') (lower ?t3)"
    by (simp_all add: is_spam_def bad_def strip_def isspace_def needs_manual_reply_def
        urgent_words_def emoji_literal_def ascii_def lower_def lower_cp_def)
  then have 3: "reply default_config \<lparr>msg_name = ascii ''Ana'', msg_text = ?t3\<rparr> [] =
     Inr (Dict [(''reply'', Str (ascii ''Hey Ana! I'' @ [8217]
                   @ ascii ''m Captain Lethargy. What are you into '' @ [8212]
                   @ ascii '' guitars, lyrics, or good vibes?'')),
                (''platform'', Str (ascii ''unknown'')),
                (''manual_required'', Bool False)])"
    using reply_priority_order [of "\<lparr>msg_name = ascii ''Ana'', msg_text = ?t3\<rparr>" default_config "[]"] p
    by (simp add: ascii_def default_config_def)
  let ?t4 = "ascii ''good morning''"
  have "\<not> is_spam ?t4" "\<not> needs_manual_reply ?t4" "\<not> str_in (ascii ''nurse'') (lower ?t4)"
    "\<not> str_in (ascii ''hi'') (lower ?t4)" "\<not> str_in (ascii ''hello'') (lower ?t4)"
    "\<not> str_in (ascii ''hey'') (lower ?t4)" "\<not> str_in (ascii ''yo'') (lower ?t4)"
    by (simp_all add: is_spam_def bad_def strip_def isspace_def needs_manual_reply_def
        urgent_words_def emoji_literal_def ascii_def lower_def lower_cp_def)
  then have 4: "reply default_config \<lparr>msg_name = ascii ''Ana'', msg_text = ?t4\<rparr> [] =
     Inr (Dict [(''reply'', Str (ascii
                   ''Hello Ana. Are you interested in new releases, catalogue links, or something else?'')),
                (''platform'', Str (ascii ''unknown'')),
                (''manual_required'', Bool False)])"
    using reply_priority_order [of "\<lparr>msg_name = ascii ''Ana'', msg_text = ?t4\<rparr>" default_config "[]"] p
    by (simp add: ascii_def)
  from 1 2 3 4 show ?thesis by blast
qed

text \<open>
  C5: for every configuration, message and header set the handler returns a payload whose
  \<open>platform\<close> field is \<open>detect_platform\<close> of the headers and whose \<open>manual_required\<close> field is
  \<open>needs_manual_reply\<close> of the message text, whichever branch produced the reply.
\<close>

theorem reply_flags_every_branch:
  "\<exists>items. reply cfg msg hs = Inr (Dict items)
     \<and> map_of items ''platform'' = Some (Str (detect_platform hs))
     \<and> map_of items ''manual_required'' = Some (Bool (needs_manual_reply (msg_text msg)))"
proof -
  let ?t = "lower (msg_text msg)"
  consider (spam) "is_spam (msg_text msg)"
    | (nurse) "\<not> is_spam (msg_text msg)" "str_in (ascii ''nurse'') ?t"
    | (greeting) "\<not> is_spam (msg_text msg)" "\<not> str_in (ascii ''nurse'') ?t"
        "str_in (ascii ''hi'') ?t \<or> str_in (ascii ''hello'') ?t \<or> str_in (ascii ''hey'') ?t
         \<or> str_in (ascii ''yo'') ?t"
    | (probe) "\<not> is_spam (msg_text msg)" "\<not> str_in (ascii ''nurse'') ?t"
        "\<not> str_in (ascii ''hi'') ?t" "\<not> str_in (ascii ''hello'') ?t"
        "\<not> str_in (ascii ''hey'') ?t" "\<not> str_in (ascii ''yo'') ?t"
    by blast
  then show ?thesis
  proof cases
    case spam
    then show ?thesis by (simp add: reply_spam)
  next
    case nurse
    then show ?thesis by (simp add: reply_nurse)
  next
    case greeting
    then show ?thesis by (simp add: reply_greeting)
  next
    case probe
    then show ?thesis by (simp add: reply_default)
  qed
qed

theorem reply_flags_every_branch_witness:
  "\<exists>items. reply default_config \<lparr>msg_name = ascii ''Ana'', msg_text = ascii ''can you help?''\<rparr>
        [(ascii ''TikTok-Signature'', ascii ''t=1'')] = Inr (Dict items)
     \<and> map_of items ''platform'' = Some (Str (ascii ''tiktok''))
     \<and> map_of items ''manual_required'' = Some (Bool True)"
proof -
  have "detect_platform [(ascii ''TikTok-Signature'', ascii ''t=1'')] = ascii ''tiktok''"
    by (simp add: detect_platform_def lower_keys_def ascii_def lower_def lower_cp_def)
  moreover have "needs_manual_reply (ascii ''can you help?'')"
    by (simp add: needs_manual_reply_def urgent_words_def ascii_def lower_def lower_cp_def)
  ultimately show ?thesis
    using reply_flags_every_branch [of default_config
        "\<lparr>msg_name = ascii ''Ana'', msg_text = ascii ''can you help?''\<rparr>"
        "[(ascii ''TikTok-Signature'', ascii ''t=1'')]"]
    by simp
qed

text \<open>
  C8: for every configuration and header set, \<open>test_nurse\<close> returns the nurse greeting for
  \<open>Keith\<close>, the four-key \<open>nurse_images\<close> block, \<open>manual_required\<close> false and the platform
  detected from the actual headers; this is the payload \<open>reply\<close> returns for the message
  with name \<open>Keith\<close> and text \<open>nurse\<close>.
\<close>

theorem test_nurse_payload:
  "test_nurse cfg hs =
     Dict [(''reply'', Str (ascii ''Hello Keith. How are you today? Is there anything you need?'')),
           (''platform'', Str (detect_platform hs)),
           (''manual_required'', Bool False),
           (''nurse_images'',
              Dict [(''main'', Str (NURSE_MEDIA_URL cfg)),
                    (''curtain'', Str (NURSE_CURTAIN_URL cfg)),
                    (''bed'', Str (NURSE_BED_URL cfg)),
                    (''nil_by_mouth'', Str (NURSE_NIL_URL cfg))])]
   \<and> reply cfg \<lparr>msg_name = ascii ''Keith'', msg_text = ascii ''nurse''\<rparr> hs = Inr (test_nurse cfg hs)"
proof -
  let ?text = "ascii ''nurse''"
  have a: "\<not> needs_manual_reply ?text"
    by (simp add: needs_manual_reply_def urgent_words_def emoji_literal_def ascii_def
        lower_def lower_cp_def)
  have b: "\<not> is_spam ?text"
    by (simp add: is_spam_def bad_def strip_def isspace_def ascii_def lower_def lower_cp_def)
  have c: "str_in (ascii ''nurse'') (lower ?text)"
    by (simp add: ascii_def lower_def lower_cp_def)
  have d: "nurse_greeting (ascii ''Keith'')
       = ascii ''Hello Keith. How are you today? Is there anything you need?''"
    by (simp add: nurse_greeting_def ascii_def)
  have e: "test_nurse cfg hs =
     Dict [(''reply'', Str (ascii ''Hello Keith. How are you today? Is there anything you need?'')),
           (''platform'', Str (detect_platform hs)),
           (''manual_required'', Bool False),
           (''nurse_images'',
              Dict [(''main'', Str (NURSE_MEDIA_URL cfg)),
                    (''curtain'', Str (NURSE_CURTAIN_URL cfg)),
                    (''bed'', Str (NURSE_BED_URL cfg)),
                    (''nil_by_mouth'', Str (NURSE_NIL_URL cfg))])]"
    using a d by (simp add: test_nurse_def nurse_images_def)
  have "reply cfg \<lparr>msg_name = ascii ''Keith'', msg_text = ?text\<rparr> hs = Inr (test_nurse cfg hs)"
    using reply_nurse [of "\<lparr>msg_name = ascii ''Keith'', msg_text = ?text\<rparr>" cfg hs] a b c d e
    by simp
  with e show ?thesis by simp
qed

theorem test_nurse_payload_witness:
  "test_nurse default_config [(ascii ''X-Twitter-Auth'', ascii ''abc'')] =
     Dict [(''reply'', Str (ascii ''Hello Keith. How are you today? Is there anything you need?'')),
           (''platform'', Str (ascii ''x'')),
           (''manual_required'', Bool False),
           (''nurse_images'',
              Dict [(''main'', Str []), (''curtain'', Str []), (''bed'', Str []),
                    (''nil_by_mouth'', Str [])])]"
proof -
  have "detect_platform [(ascii ''X-Twitter-Auth'', ascii ''abc'')] = ascii ''x''"
    by (simp add: detect_platform_def lower_keys_def ascii_def lower_def lower_cp_def)
  then show ?thesis
    using test_nurse_payload [of default_config "[(ascii ''X-Twitter-Auth'', ascii ''abc'')]"]
    by (simp add: default_config_def)
qed

text \<open>
  C9: \<open>pick\<close> returns the first element of a list and the empty string for the empty list.
  Each list of the template table chosen by the handler holds a single template, so for
  every configuration, message and header set the boundary, welcome and probe replies are
  each one fixed template with the name (and, for the welcome reply, the brand name) filled
  in.
\<close>

theorem pick_first_template:
  "pick [] = [] \<and> pick (x # xs) = x
   \<and> bind (getitem DEFAULT_TEMPLATES ''boundary'') (\<lambda>d. getitem d ''pro'')
       = Inr [ascii ''Hello {NAME}. This inbox is for music-related chat.'']
   \<and> bind (getitem DEFAULT_TEMPLATES ''welcome'') (\<lambda>d. getitem d ''warm'')
       = Inr [ascii ''Hey {NAME}! I'' @ [8217] @ ascii ''m {BRAND_NAME}. What are you into ''
              @ [8212] @ ascii '' guitars, lyrics, or good vibes?'']
   \<and> bind (getitem DEFAULT_TEMPLATES ''probe'') (\<lambda>d. getitem d ''pro'')
       = Inr [ascii
           ''Hello {NAME}. Are you interested in new releases, catalogue links, or something else?'']
   \<and> (is_spam (msg_text msg) \<longrightarrow>
        (\<exists>items. reply cfg msg hs = Inr (Dict items)
           \<and> map_of items ''reply'' = Some (Str (ascii ''Hello '' @ msg_name msg
                 @ ascii ''. This inbox is for music-related chat.''))))
   \<and> (\<not> is_spam (msg_text msg) \<and> \<not> str_in (ascii ''nurse'') (lower (msg_text msg))
       \<and> list_ex (\<lambda>word. str_in word (lower (msg_text msg)))
            [ascii ''hi'', ascii ''hello'', ascii ''hey'', ascii ''yo''] \<longrightarrow>
        (\<exists>items. reply cfg msg hs = Inr (Dict items)
           \<and> map_of items ''reply'' = Some (Str (ascii ''Hey '' @ msg_name msg @ ascii ''! I''
                 @ [8217] @ ascii ''m '' @ BRAND_NAME cfg @ ascii ''. What are you into ''
                 @ [8212] @ ascii '' guitars, lyrics, or good vibes?''))))
   \<and> (\<not> is_spam (msg_text msg) \<and> \<not> str_in (ascii ''nurse'') (lower (msg_text msg))
       \<and> \<not> list_ex (\<lambda>word. str_in word (lower (msg_text msg)))
            [ascii ''hi'', ascii ''hello'', ascii ''hey'', ascii ''yo''] \<longrightarrow>
        (\<exists>items. reply cfg msg hs = Inr (Dict items)
           \<and> map_of items ''reply'' = Some (Str (ascii ''Hello '' @ msg_name msg
                 @ ascii ''. Are you interested in new releases, catalogue links, or something else?''))))"
proof -
  have tbl:
    "bind (getitem DEFAULT_TEMPLATES ''boundary'') (\<lambda>d. getitem d ''pro'')
       = Inr [ascii ''Hello {NAME}. This inbox is for music-related chat.'']"
    "bind (getitem DEFAULT_TEMPLATES ''welcome'') (\<lambda>d. getitem d ''warm'')
       = Inr [ascii ''Hey {NAME}! I'' @ [8217] @ ascii ''m {BRAND_NAME}. What are you into ''
              @ [8212] @ ascii '' guitars, lyrics, or good vibes?'']"
    "bind (getitem DEFAULT_TEMPLATES ''probe'') (\<lambda>d. getitem d ''pro'')
       = Inr [ascii
           ''Hello {NAME}. Are you interested in new releases, catalogue links, or something else?'']"
    by (simp_all add: bind_def getitem_def DEFAULT_TEMPLATES_def)
  have s: "is_spam (msg_text msg) \<longrightarrow>
        (\<exists>items. reply cfg msg hs = Inr (Dict items)
           \<and> map_of items ''reply'' = Some (Str (ascii ''Hello '' @ msg_name msg
                 @ ascii ''. This inbox is for music-related chat.'')))"
    by (simp add: reply_spam)
  have g: "\<not> is_spam (msg_text msg) \<and> \<not> str_in (ascii ''nurse'') (lower (msg_text msg))
       \<and> list_ex (\<lambda>word. str_in word (lower (msg_text msg)))
            [ascii ''hi'', ascii ''hello'', ascii ''hey'', ascii ''yo''] \<longrightarrow>
        (\<exists>items. reply cfg msg hs = Inr (Dict items)
           \<and> map_of items ''reply'' = Some (Str (ascii ''Hey '' @ msg_name msg @ ascii ''! I''
                 @ [8217] @ ascii ''m '' @ BRAND_NAME cfg @ ascii ''. What are you into ''
                 @ [8212] @ ascii '' guitars, lyrics, or good vibes?'')))"
    using reply_greeting [of msg cfg hs] by auto
  have p: "\<not> is_spam (msg_text msg) \<and> \<not> str_in (ascii ''nurse'') (lower (msg_text msg))
       \<and> \<not> list_ex (\<lambda>word. str_in word (lower (msg_text msg)))
            [ascii ''hi'', ascii ''hello'', ascii ''hey'', ascii ''yo''] \<longrightarrow>
        (\<exists>items. reply cfg msg hs = Inr (Dict items)
           \<and> map_of items ''reply'' = Some (Str (ascii ''Hello '' @ msg_name msg
                 @ ascii ''. Are you interested in new releases, catalogue links, or something else?'')))"
    using reply_default [of msg cfg hs] by auto
  from tbl s g p show ?thesis by simp
qed

theorem pick_first_template_witness:
  "\<exists>items. reply default_config \<lparr>msg_name = ascii ''Ana'', msg_text = ascii ''casino night''\<rparr> []
        = Inr (Dict items)
     \<and> map_of items ''reply''
        = Some (Str (ascii ''Hello Ana. This inbox is for music-related chat.''))"
proof -
  have "is_spam (ascii ''casino night'')"
    by (simp add: is_spam_def bad_def strip_def isspace_def ascii_def lower_def lower_cp_def)
  then show ?thesis
    using pick_first_template [of "[]" "[]" "\<lparr>msg_name = ascii ''Ana'', msg_text = ascii ''casino night''\<rparr>"
        default_config "[]"]
    by (simp add: ascii_def)
qed

text \<open>
  C10: the greeting branch is a substring test on the lowercased text. For every message
  that is not spam and does not contain \<open>nurse\<close>, if the lowercased text contains \<open>hi\<close>,
  \<open>hello\<close>, \<open>hey\<close> or \<open>yo\<close> anywhere, the handler returns the welcome template and not the
  probe template; the texts \<open>this\<close> and \<open>your\<close> are two such messages.
\<close>

theorem greeting_plain_substring:
  "(\<not> is_spam (msg_text msg) \<and> \<not> str_in (ascii ''nurse'') (lower (msg_text msg))
      \<and> (str_in (ascii ''hi'') (lower (msg_text msg))
           \<or> str_in (ascii ''hello'') (lower (msg_text msg))
           \<or> str_in (ascii ''hey'') (lower (msg_text msg))
           \<or> str_in (ascii ''yo'') (lower (msg_text msg))) \<longrightarrow>
      reply cfg msg hs =
        Inr (Dict [(''reply'', Str (ascii ''Hey '' @ msg_name msg @ ascii ''! I'' @ [8217]
                      @ ascii ''m '' @ BRAND_NAME cfg @ ascii ''. What are you into '' @ [8212]
                      @ ascii '' guitars, lyrics, or good vibes?'')),
                   (''platform'', Str (detect_platform hs)),
                   (''manual_required'', Bool (needs_manual_reply (msg_text msg)))]))
   \<and> reply cfg \<lparr>msg_name = n, msg_text = ascii ''this''\<rparr> hs =
        Inr (Dict [(''reply'', Str (ascii ''Hey '' @ n @ ascii ''! I'' @ [8217]
                      @ ascii ''m '' @ BRAND_NAME cfg @ ascii ''. What are you into '' @ [8212]
                      @ ascii '' guitars, lyrics, or good vibes?'')),
                   (''platform'', Str (detect_platform hs)),
                   (''manual_required'', Bool False)])
   \<and> reply cfg \<lparr>msg_name = n, msg_text = ascii ''your''\<rparr> hs =
        Inr (Dict [(''reply'', Str (ascii ''Hey '' @ n @ ascii ''! I'' @ [8217]
                      @ ascii ''m '' @ BRAND_NAME cfg @ ascii ''. What are you into '' @ [8212]
                      @ ascii '' guitars, lyrics, or good vibes?'')),
                   (''platform'', Str (detect_platform hs)),
                   (''manual_required'', Bool False)])"
proof -
  have a: "\<not> is_spam (ascii ''this'')" "\<not> str_in (ascii ''nurse'') (lower (ascii ''this''))"
    "str_in (ascii ''hi'') (lower (ascii ''this''))" "\<not> needs_manual_reply (ascii ''this'')"
    by (simp_all add: is_spam_def bad_def strip_def isspace_def needs_manual_reply_def
        urgent_words_def emoji_literal_def ascii_def lower_def lower_cp_def)
  have b: "\<not> is_spam (ascii ''your'')" "\<not> str_in (ascii ''nurse'') (lower (ascii ''your''))"
    "str_in (ascii ''yo'') (lower (ascii ''your''))" "\<not> needs_manual_reply (ascii ''your'')"
    by (simp_all add: is_spam_def bad_def strip_def isspace_def needs_manual_reply_def
        urgent_words_def emoji_literal_def ascii_def lower_def lower_cp_def)
  show ?thesis
    using reply_greeting [of msg cfg hs]
      reply_greeting [of "\<lparr>msg_name = n, msg_text = ascii ''this''\<rparr>" cfg hs]
      reply_greeting [of "\<lparr>msg_name = n, msg_text = ascii ''your''\<rparr>" cfg hs] a b
    by simp
qed

theorem greeting_plain_substring_witness:
  "\<not> is_spam (ascii ''Which one?'')
   \<and> \<not> str_in (ascii ''nurse'') (lower (ascii ''Which one?''))
   \<and> str_in (ascii ''hi'') (lower (ascii ''Which one?''))
   \<and> reply default_config \<lparr>msg_name = ascii ''Ana'', msg_text = ascii ''Which one?''\<rparr> [] =
        Inr (Dict [(''reply'', Str (ascii ''Hey Ana! I'' @ [8217]
                      @ ascii ''m Captain Lethargy. What are you into '' @ [8212]
                      @ ascii '' guitars, lyrics, or good vibes?'')),
                   (''platform'', Str (ascii ''unknown'')),
                   (''manual_required'', Bool False)])"
proof -
  let ?text = "ascii ''Which one?''"
  have a: "\<not> is_spam ?text" "\<not> str_in (ascii ''nurse'') (lower ?text)"
    "str_in (ascii ''hi'') (lower ?text)" "\<not> needs_manual_reply ?text"
    by (simp_all add: is_spam_def bad_def strip_def isspace_def needs_manual_reply_def
        urgent_words_def emoji_literal_def ascii_def lower_def lower_cp_def)
  have p: "detect_platform [] = ascii ''unknown''"
    by (simp add: detect_platform_def lower_keys_def ascii_def)
  show ?thesis
    using greeting_plain_substring
      [of "\<lparr>msg_name = ascii ''Ana'', msg_text = ?text\<rparr>" default_config "[]" "[]"] a p
    by (simp add: default_config_def ascii_def)
qed




text \<open>
  C3, as stated, fails in two ways. The length test is on the lowercased text, and
  lowercasing U+0130 yields two code points: a text of 21 such letters has no urgency word
  and no emoji and is not longer than 40, yet it is flagged. The emoji test runs over the
  six code points of the literal, so the variation selector U+FE0F alone flags a text: the
  sun emoji U+2600 U+FE0F contains none of the five emoji, neither as single characters
  nor with the heart read as the pair U+2764 U+FE0F, yet it is flagged.
\<close>

theorem needs_manual_reply_counterexample:
  "needs_manual_reply (replicate 21 304) \<and> \<not> spec_needs_manual_reply (replicate 21 304)
   \<and> needs_manual_reply [9728, 65039] \<and> \<not> spec_needs_manual_reply [9728, 65039]
   \<and> \<not> str_in [10084, 65039] [9728, 65039]"
proof -
  let ?t = "replicate 21 (304::nat)"
  have len: "length (lower ?t) = 42"
    by (simp add: length_lower_dotted)
  have a: "needs_manual_reply ?t"
    unfolding needs_manual_reply_iff using len by simp
  have nw: "\<not> str_in w (lower ?t)" if "w \<in> set urgent_words" for w
  proof
    assume "str_in w (lower ?t)"
    then have "set w \<subseteq> set (lower ?t)"
      by (auto simp: str_in_iff)
    with set_lower_dotted [of 21] have "set w \<subseteq> {105, 775}" by blast
    with that show False
      by (auto simp: urgent_words_def ascii_def)
  qed
  have b: "\<not> spec_needs_manual_reply ?t"
    using nw by (auto simp: spec_needs_manual_reply_def list_ex_iff five_emoji_def)
  have c: "needs_manual_reply [9728, 65039]"
    unfolding needs_manual_reply_iff by (simp add: emoji_literal_def)
  have d: "\<not> spec_needs_manual_reply [9728, 65039]"
    by (simp add: spec_needs_manual_reply_def urgent_words_def five_emoji_def ascii_def
        lower_def lower_cp_def)
  have e: "\<not> str_in [10084, 65039] [9728, 65039]"
    by simp
  from a b c d e show ?thesis by blast
qed

text \<open>
  C3, amended: \<open>needs_manual_reply\<close> returns false for the empty text. Every non-empty text
  in whose lowercased form a fixed urgency substring occurs, or whose lowercased form is
  longer than 40 code points, or which contains one of the five emoji characters U+1F642,
  U+1F60A, U+1F622, U+1F62D, U+2764, yields true; a text without the variation selector
  U+FE0F yields true only then. In particular every text longer than 40 code points
  yields true.
\<close>

theorem needs_manual_reply_rule:
  "\<not> needs_manual_reply []
   \<and> (text \<noteq> [] \<and>
        ((\<exists>w\<in>set urgent_words. str_in w (lower text))
         \<or> 40 < length (lower text)
         \<or> (\<exists>ch\<in>set five_emoji. ch \<in> set text)) \<longrightarrow>
        needs_manual_reply text)
   \<and> (needs_manual_reply text \<and> 65039 \<notin> set text \<longrightarrow>
        text \<noteq> [] \<and>
        ((\<exists>w\<in>set urgent_words. str_in w (lower text))
         \<or> 40 < length (lower text)
         \<or> (\<exists>ch\<in>set five_emoji. ch \<in> set text)))
   \<and> (40 < length text \<longrightarrow> needs_manual_reply text)"
proof -
  have a: "\<not> needs_manual_reply []"
    by (simp add: needs_manual_reply_def)
  have b: "needs_manual_reply text"
    if "text \<noteq> []"
      "(\<exists>w\<in>set urgent_words. str_in w (lower text)) \<or> 40 < length (lower text)
       \<or> (\<exists>ch\<in>set five_emoji. ch \<in> set text)"
    unfolding needs_manual_reply_iff using that
    by (auto simp: emoji_literal_def five_emoji_def)
  have c: "text \<noteq> [] \<and>
        ((\<exists>w\<in>set urgent_words. str_in w (lower text))
         \<or> 40 < length (lower text)
         \<or> (\<exists>ch\<in>set five_emoji. ch \<in> set text))"
    if "needs_manual_reply text" "65039 \<notin> set text"
    using that unfolding needs_manual_reply_iff
    by (auto simp: emoji_literal_def five_emoji_def)
  have d: "needs_manual_reply text" if "40 < length text"
  proof -
    from that length_lower [of "text"] have "40 < length (lower text)" by simp
    moreover from that have "text \<noteq> []" by auto
    ultimately show ?thesis unfolding needs_manual_reply_iff by simp
  qed
  from a b c d show ?thesis by blast
qed

theorem needs_manual_reply_rule_witness:
  "needs_manual_reply (ascii ''help '' @ [10084, 65039])
   \<and> needs_manual_reply [10084, 65039]
   \<and> 65039 \<notin> set (ascii ''ok thanks'') \<and> \<not> needs_manual_reply (ascii ''ok thanks'')
   \<and> 40 < length (ascii ''la la la la la la la la la la la la la la la'')
   \<and> needs_manual_reply (ascii ''la la la la la la la la la la la la la la la'')"
proof -
  let ?t1 = "ascii ''help '' @ [10084, 65039]"
  have "?t1 \<noteq> []" "\<exists>w\<in>set urgent_words. str_in w (lower ?t1)"
    by (simp_all add: urgent_words_def ascii_def lower_def lower_cp_def)
  with needs_manual_reply_rule [of ?t1] have 1: "needs_manual_reply ?t1"
    by blast
  have "[10084, 65039] \<noteq> ([]::str)" "\<exists>ch\<in>set five_emoji. ch \<in> set [10084, 65039]"
    by (simp_all add: five_emoji_def)
  with needs_manual_reply_rule [of "[10084, 65039]"] have 2: "needs_manual_reply [10084, 65039]"
    by blast
  let ?t3 = "ascii ''ok thanks''"
  have a: "65039 \<notin> set ?t3"
    by (simp add: ascii_def)
  have b: "\<not> (\<exists>w\<in>set urgent_words. str_in w (lower ?t3))"
    "\<not> 40 < length (lower ?t3)"
    "\<not> (\<exists>ch\<in>set five_emoji. ch \<in> set ?t3)"
    by (simp_all add: urgent_words_def five_emoji_def ascii_def lower_def lower_cp_def)
  with a needs_manual_reply_rule [of ?t3] have 3: "\<not> needs_manual_reply ?t3"
    by blast
  let ?t4 = "ascii ''la la la la la la la la la la la la la la la''"
  have d: "40 < length ?t4"
    by (simp add: ascii_def)
  with needs_manual_reply_rule [of ?t4] have 4: "needs_manual_reply ?t4"
    by blast
  from 1 2 a 3 d 4 show ?thesis by blast
qed

text \<open>
  C4, as stated, fails: when two headers have the name \<open>x-hub-signature\<close> up to case, the
  dictionary keeps the value of the later one, so an earlier value containing \<open>instagram\<close>
  does not make the result \<open>instagram\<close>.
\<close>

theorem detect_platform_counterexample:
  "lower (ascii ''x-hub-signature'') = ascii ''x-hub-signature''
   \<and> str_in (ascii ''instagram'') (lower (ascii ''Instagram''))
   \<and> detect_platform [(ascii ''x-hub-signature'', ascii ''Instagram''),
                       (ascii ''X-Hub-Signature'', ascii ''sha1=0f3a'')] = ascii ''facebook''
   \<and> ascii ''facebook'' \<noteq> ascii ''instagram''"
  by (simp add: detect_platform_def lower_keys_def ascii_def lower_def lower_cp_def)

text \<open>
  C4, amended: \<open>detect_platform\<close> compares header names case-insensitively, checks them in a
  fixed order and always returns one of the five tags. The last header named
  \<open>x-hub-signature\<close> decides between \<open>instagram\<close> (its value contains \<open>instagram\<close> in any
  case) and \<open>facebook\<close>; without such a header a \<open>tiktok-signature\<close> header gives \<open>tiktok\<close>,
  then an \<open>x-twitter-auth\<close> header gives \<open>x\<close>, and \<open>unknown\<close> is the default.
\<close>

theorem detect_platform_priority:
  "detect_platform hs \<in> set platform_tags
   \<and> (hs = pre @ (k, v) # post \<and> lower k = ascii ''x-hub-signature''
       \<and> \<not> has_header post (ascii ''x-hub-signature'') \<longrightarrow>
        detect_platform hs =
          (if str_in (ascii ''instagram'') (lower v) then ascii ''instagram''
           else ascii ''facebook''))
   \<and> (\<not> has_header hs (ascii ''x-hub-signature'') \<and> has_header hs (ascii ''tiktok-signature'')
        \<longrightarrow> detect_platform hs = ascii ''tiktok'')
   \<and> (\<not> has_header hs (ascii ''x-hub-signature'') \<and> \<not> has_header hs (ascii ''tiktok-signature'')
       \<and> has_header hs (ascii ''x-twitter-auth'') \<longrightarrow> detect_platform hs = ascii ''x'')
   \<and> (\<not> has_header hs (ascii ''x-hub-signature'') \<and> \<not> has_header hs (ascii ''tiktok-signature'')
       \<and> \<not> has_header hs (ascii ''x-twitter-auth'') \<longrightarrow> detect_platform hs = ascii ''unknown'')"
proof -
  have a: "detect_platform hs \<in> set platform_tags"
    by (simp add: detect_platform_def platform_tags_def Let_def split: option.split)
  have b: "detect_platform hs =
          (if str_in (ascii ''instagram'') (lower v) then ascii ''instagram''
           else ascii ''facebook'')"
    if "hs = pre @ (k, v) # post" "lower k = ascii ''x-hub-signature''"
      "\<not> has_header post (ascii ''x-hub-signature'')"
  proof -
    from that have "lower_keys hs (ascii ''x-hub-signature'') = Some v"
      using lower_keys_last [of post k pre v] by simp
    then show ?thesis by (simp add: detect_platform_def)
  qed
  have none: "lower_keys hs (ascii ''x-hub-signature'') = None"
    if "\<not> has_header hs (ascii ''x-hub-signature'')"
    using that by (simp add: lower_keys_None_iff)
  have c: "detect_platform hs = ascii ''tiktok''"
    if "\<not> has_header hs (ascii ''x-hub-signature'')" "has_header hs (ascii ''tiktok-signature'')"
  proof -
    from that(1) have n: "lower_keys hs (ascii ''x-hub-signature'') = None"
      by (rule none)
    show ?thesis
      unfolding detect_platform_def Let_def n using that by (simp add: lower_keys_None_iff)
  qed
  have d: "detect_platform hs = ascii ''x''"
    if "\<not> has_header hs (ascii ''x-hub-signature'')" "\<not> has_header hs (ascii ''tiktok-signature'')"
      "has_header hs (ascii ''x-twitter-auth'')"
  proof -
    from that(1) have n: "lower_keys hs (ascii ''x-hub-signature'') = None"
      by (rule none)
    show ?thesis
      unfolding detect_platform_def Let_def n using that by (simp add: lower_keys_None_iff)
  qed
  have e: "detect_platform hs = ascii ''unknown''"
    if "\<not> has_header hs (ascii ''x-hub-signature'')" "\<not> has_header hs (ascii ''tiktok-signature'')"
      "\<not> has_header hs (ascii ''x-twitter-auth'')"
  proof -
    from that(1) have n: "lower_keys hs (ascii ''x-hub-signature'') = None"
      by (rule none)
    show ?thesis
      unfolding detect_platform_def Let_def n using that by (simp add: lower_keys_None_iff)
  qed
  from a b c d e show ?thesis by blast
qed

theorem detect_platform_priority_witness:
  "detect_platform [(ascii ''X-Hub-Signature'', ascii ''sha1=INSTAGRAM''),
                    (ascii ''TikTok-Signature'', ascii ''t=1'')] = ascii ''instagram''
   \<and> detect_platform [(ascii ''Host'', ascii ''example.org''),
                       (ascii ''TikTok-Signature'', ascii ''t=1''),
                       (ascii ''X-Twitter-Auth'', ascii ''abc'')] = ascii ''tiktok''
   \<and> detect_platform [([84, 73, 8490, 84, 79, 8490] @ ascii ''-SIGNATURE'', ascii ''t=1'')]
       = ascii ''tiktok''
   \<and> detect_platform [(ascii ''X-Twitter-Auth'', ascii ''abc'')] = ascii ''x''
   \<and> detect_platform [(ascii ''Host'', ascii ''example.org'')] = ascii ''unknown''"
proof -
  let ?h1 = "[(ascii ''X-Hub-Signature'', ascii ''sha1=INSTAGRAM''),
              (ascii ''TikTok-Signature'', ascii ''t=1'')]"
  let ?h2 = "[(ascii ''Host'', ascii ''example.org''), (ascii ''TikTok-Signature'', ascii ''t=1''),
              (ascii ''X-Twitter-Auth'', ascii ''abc'')]"
  let ?h3 = "[(ascii ''X-Twitter-Auth'', ascii ''abc'')]"
  let ?h4 = "[(ascii ''Host'', ascii ''example.org'')]"
  let ?h5 = "[([84, 73, 8490, 84, 79, 8490] @ ascii ''-SIGNATURE'', ascii ''t=1'')]"
  have 1: "detect_platform ?h1 = ascii ''instagram''"
    using detect_platform_priority [of ?h1 "[]" "ascii ''X-Hub-Signature''"
        "ascii ''sha1=INSTAGRAM''" "[(ascii ''TikTok-Signature'', ascii ''t=1'')]"]
    by (simp add: has_header_def ascii_def lower_def lower_cp_def)
  have 2: "detect_platform ?h2 = ascii ''tiktok''"
    using detect_platform_priority [of ?h2 "[]" "[]" "[]" "[]"]
    by (simp add: has_header_def ascii_def lower_def lower_cp_def)
  have 3: "detect_platform ?h3 = ascii ''x''"
    using detect_platform_priority [of ?h3 "[]" "[]" "[]" "[]"]
    by (simp add: has_header_def ascii_def lower_def lower_cp_def)
  have 4: "detect_platform ?h4 = ascii ''unknown''"
    using detect_platform_priority [of ?h4 "[]" "[]" "[]" "[]"]
    by (simp add: has_header_def ascii_def lower_def lower_cp_def)
  have 5: "detect_platform ?h5 = ascii ''tiktok''"
    using detect_platform_priority [of ?h5 "[]" "[]" "[]" "[]"]
    by (simp add: has_header_def ascii_def lower_def lower_cp_def)
  from 1 2 3 4 5 show ?thesis by blast
qed

end
